theory Spec2Isabelle
  imports Main
begin

section \<open>Deployment submission and status polling of the AI Builder CLI\<close>

text \<open>
  The development embeds the deployment core of the two integrations of the repository,
  the classes \<open>OpenShiftDeployment\<close> and \<open>RHODSIntegration\<close>: the HTTP request wrapper,
  the status query, the poll loop, the submission and the inference call.

  Effects are explicit. A class instance is a record holding its in-memory store and the
  trace of the effects performed so far (network requests and timed suspensions, oldest
  first). The remote service is a function from the number of requests already issued to
  the raw outcome of the next request. A promise that settles is a sum: \<open>Inl\<close> the
  rejection (what was thrown), \<open>Inr\<close> the resolved value. Console output is not modelled,
  except where building the logged text throws.
\<close>

subsection \<open>Values\<close>

text \<open>
  What is thrown, reduced to its message: an \<open>Error\<close> made by the code, or the \<open>TypeError\<close>
  the engine raises when a field of \<open>null\<close> is read.
\<close>

datatype js_error = Error (message: string) | TypeError (message: string)

text \<open>
  A JSON object, reduced to the fields the code reads. An absent field is \<open>None\<close>;
  \<open>success\<close> is the truthiness of the field of that name. The other three fields are
  taken to hold strings when present.
\<close>

record response =
  success :: bool
  status :: "string option"
  endpoint :: "string option"
  error :: "string option"

text \<open>
  What a body parses to: \<open>null\<close>, on which reading a field throws, or an object. Any other
  JSON value (a number, a string, an array) reads every field as undefined and so behaves
  as an object without these fields.
\<close>

datatype json = Null | Object response

text \<open>
  What the transport delivers for one request: the request's \<open>error\<close> event, or a response
  with a status code and a body, on which \<open>JSON.parse\<close> either throws (with a message) or
  yields a value.
\<close>

datatype body = Unparseable string | Parsed json

datatype http_outcome = TransportError string | HttpResponse nat body

type_synonym remote = "nat \<Rightarrow> http_outcome"

text \<open>
  The effects: a request, with the method and the path given to the request wrapper (the
  wrapper resolves the path against its base URL before sending), and a timed suspension.
\<close>

datatype event = Request string string | Sleep nat

fun is_request :: "event \<Rightarrow> bool" where
  "is_request (Request m p) = True"
| "is_request (Sleep ms) = False"

definition n_requests :: "event list \<Rightarrow> nat" where
  "n_requests es = length (filter is_request es)"

subsection \<open>JavaScript operators on optional strings\<close>

text \<open>\<open>x || d\<close>: the fallback is taken when \<open>x\<close> is undefined or the empty string.\<close>

fun or_else :: "string option \<Rightarrow> string \<Rightarrow> string" where
  "or_else None d = d"
| "or_else (Some v) d = (if v = [] then d else v)"

text \<open>\<open>${x}\<close> inside a template literal: undefined prints as \<open>undefined\<close>.\<close>

fun template :: "string option \<Rightarrow> string" where
  "template None = ''undefined''"
| "template (Some v) = v"

text \<open>\<open>${n}\<close> for a status code: the decimal digits of a natural number.\<close>

fun decimal :: "nat \<Rightarrow> string" where
  "decimal n = (if n < 10 then [char_of (48 + n)]
                else decimal (n div 10) @ [char_of (48 + n mod 10)])"

declare decimal.simps [simp del]

text \<open>
  The message of the \<open>TypeError\<close> for reading the field \<open>prop\<close> of \<open>null\<close>, in the words of
  the V8 engine; the field name stands between two apostrophes.
\<close>

definition null_read :: "string \<Rightarrow> string" where
  "null_read prop =
     ''Cannot read properties of null (reading '' @ [CHR 0x27] @ prop @ [CHR 0x27] @ '')''"

subsection \<open>Effects shared by both classes\<close>

text \<open>
  Both classes are extensions of one record of effects, so that \<open>trace\<close> reads either.
  Both define the same \<open>sleep\<close>: a timed suspension of \<open>ms\<close> milliseconds.
\<close>

record io =
  trace :: "event list"

definition sleep :: "nat \<Rightarrow> 'a io_scheme \<Rightarrow> 'a io_scheme" where
  "sleep ms s = s\<lparr>trace := trace s @ [Sleep ms]\<rparr>"

text \<open>
  How a block of statements completes: by \<open>return\<close> (of an object), by \<open>throw\<close>, or by
  running off its end.
\<close>

datatype completion = Returns response | Throws js_error | Completes

subsection \<open>OpenShiftDeployment\<close>

record deployment =
  dep_endpoint :: "string option"
  dep_status :: string
  deployed_at :: string

record openshift = io +
  deployments :: "string \<rightharpoonup> deployment"

record modelConfig =
  name :: string
  model_type :: string
  framework :: string
  modelPath :: string
  requirements :: "string list"

text \<open>The constructor: an empty store, nothing done yet.\<close>

definition new_OpenShiftDeployment :: openshift where
  "new_OpenShiftDeployment = \<lparr>trace = [], deployments = Map.empty\<rparr>"

text \<open>
  How the promise of \<open>makeRequest\<close> settles on what the transport delivers. On a status
  code outside 200..299 the code reads \<open>response.error\<close>; on \<open>null\<close> that read throws inside
  the \<open>try\<close>, and the \<open>catch\<close> rejects with the message of an invalid response.
\<close>

fun makeRequest_settle :: "http_outcome \<Rightarrow> js_error + json" where
  "makeRequest_settle (TransportError msg) = Inl (Error msg)"
| "makeRequest_settle (HttpResponse statusCode (Unparseable msg)) =
     Inl (Error (''Invalid response: '' @ msg))"
| "makeRequest_settle (HttpResponse statusCode (Parsed Null)) =
     (if 200 \<le> statusCode \<and> statusCode < 300 then Inr Null
      else Inl (Error (''Invalid response: '' @ null_read ''error'')))"
| "makeRequest_settle (HttpResponse statusCode (Parsed (Object r))) =
     (if 200 \<le> statusCode \<and> statusCode < 300 then Inr (Object r)
      else Inl (Error (or_else (error r) (''HTTP '' @ decimal statusCode))))"

text \<open>One request: the next outcome of the remote, and the request added to the trace.\<close>

definition makeRequest ::
  "remote \<Rightarrow> string \<Rightarrow> string \<Rightarrow> openshift \<Rightarrow> (js_error + json) \<times> openshift" where
  "makeRequest srv method path s =
     (makeRequest_settle (srv (n_requests (trace s))),
      s\<lparr>trace := trace s @ [Request method path]\<rparr>)"

definition getDeploymentStatus ::
  "remote \<Rightarrow> string \<Rightarrow> openshift \<Rightarrow> (js_error + json) \<times> openshift" where
  "getDeploymentStatus srv modelName s =
     (case makeRequest srv ''GET'' (''/status/'' @ modelName) s of
        (Inr response, s1) \<Rightarrow> (Inr response, s1)
      | (Inl e, s1) \<Rightarrow>
          (Inr (Object \<lparr>success = False, status = Some ''unknown'', endpoint = None,
                        error = Some (message e)\<rparr>), s1))"

text \<open>
  The \<open>try\<close> block of one iteration of \<open>monitorDeployment\<close>. Its first read,
  \<open>status.status\<close>, throws when the status query resolved with \<open>null\<close>.
\<close>

definition try_block :: "nat \<Rightarrow> remote \<Rightarrow> string \<Rightarrow> openshift \<Rightarrow> completion \<times> openshift" where
  "try_block delay srv modelName s =
     (case getDeploymentStatus srv modelName s of
        (Inl e, s1) \<Rightarrow> (Throws e, s1)
      | (Inr Null, s1) \<Rightarrow> (Throws (TypeError (null_read ''status'')), s1)
      | (Inr (Object st), s1) \<Rightarrow>
          if status st = Some ''ready'' then (Returns st, s1)
          else if status st = Some ''failed'' then
            (Throws (Error (''Deployment failed: '' @ template (error st))), s1)
          else (Completes, sleep delay s1))"

text \<open>
  The \<open>for\<close> loop of \<open>monitorDeployment\<close>, from a given value of \<open>attempt\<close>. Whatever the
  \<open>try\<close> block throws lands in the \<open>catch\<close> block, which rethrows on the last attempt and
  otherwise sleeps and lets the loop go on. After the loop comes the timeout.
\<close>

function monitor_loop ::
  "nat \<Rightarrow> nat \<Rightarrow> remote \<Rightarrow> string \<Rightarrow> nat \<Rightarrow> openshift \<Rightarrow> (js_error + response) \<times> openshift" where
  "monitor_loop maxAttempts delay srv modelName attempt s =
     (if attempt \<le> maxAttempts then
        (case try_block delay srv modelName s of
           (Returns st, s1) \<Rightarrow> (Inr st, s1)
         | (Completes, s1) \<Rightarrow> monitor_loop maxAttempts delay srv modelName (Suc attempt) s1
         | (Throws e, s1) \<Rightarrow>
             if attempt = maxAttempts then (Inl e, s1)
             else monitor_loop maxAttempts delay srv modelName (Suc attempt) (sleep delay s1))
      else (Inl (Error ''Deployment timeout''), s))"
  by pat_completeness auto
termination
  by (relation "measure (\<lambda>(maxAttempts, delay, srv, modelName, attempt, s). Suc maxAttempts - attempt)")
     auto

declare monitor_loop.simps [simp del]

text \<open>\<open>monitorDeployment\<close> fixes 30 attempts and a delay of 5 seconds.\<close>

definition monitorDeployment ::
  "remote \<Rightarrow> string \<Rightarrow> openshift \<Rightarrow> (js_error + response) \<times> openshift" where
  "monitorDeployment srv modelName s = monitor_loop 30 5000 srv modelName 1 s"

text \<open>
  \<open>deployModel\<close>; \<open>now\<close> is the time \<open>new Date().toISOString()\<close> reads when the record is
  stored. Reading \<open>response.success\<close> throws on \<open>null\<close>. The \<open>catch\<close> block logs and
  rethrows.
\<close>

definition deployModel ::
  "remote \<Rightarrow> string \<Rightarrow> modelConfig \<Rightarrow> openshift \<Rightarrow> (js_error + response) \<times> openshift" where
  "deployModel srv now cfg s =
     (case makeRequest srv ''POST'' ''/deploy'' s of
        (Inr Null, s1) \<Rightarrow> (Inl (TypeError (null_read ''success'')), s1)
      | (Inr (Object r), s1) \<Rightarrow>
          if success r then
            monitorDeployment srv (name cfg)
              (s1\<lparr>deployments := (deployments s1)(name cfg \<mapsto>
                    \<lparr>dep_endpoint = endpoint r, dep_status = ''deploying'',
                     deployed_at = now\<rparr>)\<rparr>)
          else (Inl (Error (or_else (error r) ''Deployment failed'')), s1)
      | (Inl e, s1) \<Rightarrow> (Inl e, s1))"

text \<open>
  \<open>runInference\<close>: the lookup in the store comes before the request. The payload built from
  \<open>data\<close> is not part of the trace. After the request the code logs \<open>response.result\<close>, a
  read that throws on \<open>null\<close>; the \<open>catch\<close> block logs and rethrows.
\<close>

definition runInference ::
  "remote \<Rightarrow> string \<Rightarrow> 'd \<Rightarrow> openshift \<Rightarrow> (js_error + response) \<times> openshift" where
  "runInference srv modelName data s =
     (case deployments s modelName of
        None \<Rightarrow> (Inl (Error (''Model '' @ modelName @ '' not deployed'')), s)
      | Some deployment \<Rightarrow>
          (case makeRequest srv ''POST'' ''/infer'' s of
             (Inr Null, s1) \<Rightarrow> (Inl (TypeError (null_read ''result'')), s1)
           | (Inr (Object r), s1) \<Rightarrow> (Inr r, s1)
           | (Inl e, s1) \<Rightarrow> (Inl e, s1)))"

subsection \<open>RHODSIntegration\<close>

record model =
  model_endpoint :: "string option"
  model_status :: string
  created_at :: string

record rhods = io +
  authToken :: "string option"
  models :: "string \<rightharpoonup> model"

definition new_RHODSIntegration :: rhods where
  "new_RHODSIntegration = \<lparr>trace = [], authToken = None, models = Map.empty\<rparr>"

text \<open>
  \<open>makeRHODSRequest\<close> differs from \<open>makeRequest\<close> in its \<open>catch\<close> block: whatever throws
  inside the \<open>try\<close>, \<open>JSON.parse\<close> on the body or the read of \<open>response.error\<close> on \<open>null\<close>,
  the promise resolves with an object built on the spot instead of rejecting.
\<close>

fun makeRHODSRequest_settle :: "http_outcome \<Rightarrow> js_error + json" where
  "makeRHODSRequest_settle (TransportError msg) = Inl (Error msg)"
| "makeRHODSRequest_settle (HttpResponse statusCode (Unparseable msg)) =
     Inr (Object \<lparr>success = False, status = None, endpoint = None,
                  error = Some (''Invalid response: '' @ msg)\<rparr>)"
| "makeRHODSRequest_settle (HttpResponse statusCode (Parsed Null)) =
     (if 200 \<le> statusCode \<and> statusCode < 300 then Inr Null
      else Inr (Object \<lparr>success = False, status = None, endpoint = None,
                        error = Some (''Invalid response: '' @ null_read ''error'')\<rparr>))"
| "makeRHODSRequest_settle (HttpResponse statusCode (Parsed (Object r))) =
     (if 200 \<le> statusCode \<and> statusCode < 300 then Inr (Object r)
      else Inl (Error (or_else (error r) (''HTTP '' @ decimal statusCode))))"

definition makeRHODSRequest ::
  "remote \<Rightarrow> string \<Rightarrow> string \<Rightarrow> rhods \<Rightarrow> (js_error + json) \<times> rhods" where
  "makeRHODSRequest srv method path s =
     (makeRHODSRequest_settle (srv (n_requests (trace s))),
      s\<lparr>trace := trace s @ [Request method path]\<rparr>)"

definition rhods_getDeploymentStatus ::
  "remote \<Rightarrow> string \<Rightarrow> rhods \<Rightarrow> (js_error + json) \<times> rhods" where
  "rhods_getDeploymentStatus srv modelName s =
     (case makeRHODSRequest srv ''GET'' (''/api/models/'' @ modelName @ ''/status'') s of
        (Inr response, s1) \<Rightarrow> (Inr response, s1)
      | (Inl e, s1) \<Rightarrow>
          (Inr (Object \<lparr>success = False, status = Some ''unknown'', endpoint = None,
                        error = Some (message e)\<rparr>), s1))"

definition rhods_try_block :: "nat \<Rightarrow> remote \<Rightarrow> string \<Rightarrow> rhods \<Rightarrow> completion \<times> rhods" where
  "rhods_try_block delay srv modelName s =
     (case rhods_getDeploymentStatus srv modelName s of
        (Inl e, s1) \<Rightarrow> (Throws e, s1)
      | (Inr Null, s1) \<Rightarrow> (Throws (TypeError (null_read ''status'')), s1)
      | (Inr (Object st), s1) \<Rightarrow>
          if status st = Some ''ready'' \<or> status st = Some ''succeeded'' then (Returns st, s1)
          else if status st = Some ''failed'' \<or> status st = Some ''error'' then
            (Throws (Error (''Deployment failed: '' @ or_else (error st) ''Unknown error'')), s1)
          else (Completes, sleep delay s1))"

function rhods_monitor_loop ::
  "nat \<Rightarrow> nat \<Rightarrow> remote \<Rightarrow> string \<Rightarrow> nat \<Rightarrow> rhods \<Rightarrow> (js_error + response) \<times> rhods" where
  "rhods_monitor_loop maxAttempts delay srv modelName attempt s =
     (if attempt \<le> maxAttempts then
        (case rhods_try_block delay srv modelName s of
           (Returns st, s1) \<Rightarrow> (Inr st, s1)
         | (Completes, s1) \<Rightarrow> rhods_monitor_loop maxAttempts delay srv modelName (Suc attempt) s1
         | (Throws e, s1) \<Rightarrow>
             if attempt = maxAttempts then (Inl e, s1)
             else rhods_monitor_loop maxAttempts delay srv modelName (Suc attempt)
                    (sleep delay s1))
      else (Inl (Error ''Deployment timeout''), s))"
  by pat_completeness auto
termination
  by (relation "measure (\<lambda>(maxAttempts, delay, srv, modelName, attempt, s). Suc maxAttempts - attempt)")
     auto

declare rhods_monitor_loop.simps [simp del]

text \<open>The RHODS \<open>monitorDeployment\<close> fixes 30 attempts and a delay of 10 seconds.\<close>

definition rhods_monitorDeployment ::
  "remote \<Rightarrow> string \<Rightarrow> rhods \<Rightarrow> (js_error + response) \<times> rhods" where
  "rhods_monitorDeployment srv modelName s = rhods_monitor_loop 30 10000 srv modelName 1 s"

subsection \<open>Notions used to state the properties\<close>

text \<open>
  The value the \<open>k\<close>-th status query of a poll session started in state \<open>s\<close> settles with
  (\<open>k\<close> counted from 1): during a session the status queries are the only requests, so it is
  the query's value on the outcome the remote gives after \<open>k - 1\<close> further requests.
\<close>

definition status_at :: "remote \<Rightarrow> string \<Rightarrow> openshift \<Rightarrow> nat \<Rightarrow> js_error + json" where
  "status_at srv modelName s k =
     fst (getDeploymentStatus (\<lambda>i. srv (i + (k - 1))) modelName s)"

definition rhods_status_at :: "remote \<Rightarrow> string \<Rightarrow> rhods \<Rightarrow> nat \<Rightarrow> js_error + json" where
  "rhods_status_at srv modelName s k =
     fst (rhods_getDeploymentStatus (\<lambda>i. srv (i + (k - 1))) modelName s)"

text \<open>The effects of \<open>k\<close> iterations that went on to the next attempt: a query, then a sleep.\<close>

definition polled :: "string \<Rightarrow> nat \<Rightarrow> nat \<Rightarrow> event list" where
  "polled path delay k = concat (replicate k [Request ''GET'' path, Sleep delay])"

text \<open>A trace in which every request that is not the last event is followed by a sleep of \<open>d\<close>.\<close>

fun paced :: "nat \<Rightarrow> event list \<Rightarrow> bool" where
  "paced d [] = True"
| "paced d [e] = True"
| "paced d (Request m p # e # es) = (e = Sleep d \<and> paced d (e # es))"
| "paced d (Sleep ms # e # es) = paced d (e # es)"



text \<open>
  Two remotes for concrete runs: one that gives every request the same outcome, and one
  that answers the first requests from a list and every later one with \<open>rest\<close>.
\<close>

definition always :: "http_outcome \<Rightarrow> remote" where
  "always out i = out"

definition script :: "http_outcome list \<Rightarrow> http_outcome \<Rightarrow> remote" where
  "script outs rest i = (if i < length outs then outs ! i else rest)"

text \<open>A 200 response whose body is an object with the given status and endpoint.\<close>

definition reports :: "string \<Rightarrow> string option \<Rightarrow> http_outcome" where
  "reports st ep =
     HttpResponse 200
       (Parsed (Object \<lparr>success = True, status = Some st, endpoint = ep, error = None\<rparr>))"

section \<open>Auxiliary facts\<close>

subsection \<open>Traces and the poll loop of OpenShiftDeployment\<close>

lemma n_requests_append [simp]: "n_requests (xs @ ys) = n_requests xs + n_requests ys"
  by (simp add: n_requests_def)

lemma n_requests_Nil [simp]: "n_requests [] = 0"
  by (simp add: n_requests_def)

lemma n_requests_Cons [simp]:
  "n_requests (e # es) = (if is_request e then Suc (n_requests es) else n_requests es)"
  by (simp add: n_requests_def)

lemma getDeploymentStatus_eq:
  "getDeploymentStatus srv n s =
     (status_at srv n s 1, s\<lparr>trace := trace s @ [Request ''GET'' (''/status/'' @ n)]\<rparr>)"
  by (simp add: getDeploymentStatus_def makeRequest_def status_at_def split: sum.splits)

lemma status_at_Inr: "\<exists>j. status_at srv n s k = Inr j"
  by (simp add: getDeploymentStatus_def makeRequest_def status_at_def split: sum.splits)

lemma status_at_trace:
  "status_at srv n (s\<lparr>trace := trace s @ es\<rparr>) k = status_at srv n s (k + n_requests es)" if "1 \<le> k"
  using that by (simp add: getDeploymentStatus_def makeRequest_def status_at_def add_ac split: sum.splits)


lemma monitor_loop_retry:
  assumes "attempt < maxAttempts" and "status_at srv n s 1 = Inr j"
    and "\<forall>st. j = Object st \<longrightarrow> status st \<noteq> Some ''ready''"
  shows "monitor_loop maxAttempts delay srv n attempt s =
         monitor_loop maxAttempts delay srv n (Suc attempt)
           (s\<lparr>trace := trace s @ [Request ''GET'' (''/status/'' @ n), Sleep delay]\<rparr>)"
  using assms
  by (subst monitor_loop.simps)
     (simp add: try_block_def getDeploymentStatus_eq sleep_def split: json.splits)


lemma monitor_loop_last:
  assumes "status_at srv n s 1 = Inr (Object st)" and "status st \<noteq> Some ''ready''"
  shows "monitor_loop maxAttempts delay srv n maxAttempts s =
         (if status st = Some ''failed''
          then (Inl (Error (''Deployment failed: '' @ template (error st))),
                s\<lparr>trace := trace s @ [Request ''GET'' (''/status/'' @ n)]\<rparr>)
          else (Inl (Error ''Deployment timeout''),
                s\<lparr>trace := trace s @ [Request ''GET'' (''/status/'' @ n), Sleep delay]\<rparr>))"
  using assms
  apply (subst monitor_loop.simps)
  apply (simp add: try_block_def getDeploymentStatus_eq sleep_def)
  apply (subst monitor_loop.simps)
  apply simp
  done


lemma polled_Suc: "polled path d (Suc k) = [Request ''GET'' path, Sleep d] @ polled path d k"
  by (simp add: polled_def)

lemma polled_Suc_end: "polled path d (Suc k) = polled path d k @ [Request ''GET'' path, Sleep d]"
  by (induction k) (simp_all add: polled_def)

lemma n_requests_polled [simp]: "n_requests (polled path d k) = k"
  by (induction k) (simp_all add: polled_def)

lemma monitor_loop_skip:
  assumes "attempt + k \<le> maxAttempts"
    and "\<forall>j. 1 \<le> j \<and> j \<le> k \<longrightarrow>
           (\<forall>st. status_at srv n s j = Inr (Object st) \<longrightarrow> status st \<noteq> Some ''ready'')"
  shows "monitor_loop maxAttempts d srv n attempt s =
         monitor_loop maxAttempts d srv n (attempt + k)
           (s\<lparr>trace := trace s @ polled (''/status/'' @ n) d k\<rparr>)"
  using assms
proof (induction k arbitrary: attempt s)
  case 0
  then show ?case by (simp add: polled_def)
next
  case (Suc k)
  let ?s1 = "s\<lparr>trace := trace s @ [Request ''GET'' (''/status/'' @ n), Sleep d]\<rparr>"
  obtain j where j: "status_at srv n s 1 = Inr j"
    using status_at_Inr by blast
  with Suc.prems have nr: "\<forall>st. j = Object st \<longrightarrow> status st \<noteq> Some ''ready''" by auto
  have step: "monitor_loop maxAttempts d srv n attempt s =
              monitor_loop maxAttempts d srv n (Suc attempt) ?s1"
    using Suc.prems(1) j nr by (intro monitor_loop_retry) auto
  have shift: "status_at srv n ?s1 i = status_at srv n s (Suc i)" if "1 \<le> i" for i
    using status_at_trace [OF that, of srv n s "[Request ''GET'' (''/status/'' @ n), Sleep d]"]
    by simp
  have "Suc attempt + k \<le> maxAttempts" using Suc.prems(1) by simp
  moreover have "\<forall>j. 1 \<le> j \<and> j \<le> k \<longrightarrow>
          (\<forall>st. status_at srv n ?s1 j = Inr (Object st) \<longrightarrow> status st \<noteq> Some ''ready'')"
    using Suc.prems(2) shift by auto
  ultimately have "monitor_loop maxAttempts d srv n (Suc attempt) ?s1 =
      monitor_loop maxAttempts d srv n (Suc attempt + k)
        (?s1\<lparr>trace := trace ?s1 @ polled (''/status/'' @ n) d k\<rparr>)"
    by (rule Suc.IH)
  with step show ?case by (simp add: polled_Suc)
qed


lemma monitor_loop_reach_last:
  assumes "1 \<le> maxAttempts"
    and "\<forall>j. 1 \<le> j \<and> j < maxAttempts \<longrightarrow>
           (\<forall>st. status_at srv n s j = Inr (Object st) \<longrightarrow> status st \<noteq> Some ''ready'')"
  shows "monitor_loop maxAttempts d srv n 1 s =
         monitor_loop maxAttempts d srv n maxAttempts
           (s\<lparr>trace := trace s @ polled (''/status/'' @ n) d (maxAttempts - 1)\<rparr>)"
    and "status_at srv n (s\<lparr>trace := trace s @ polled (''/status/'' @ n) d (maxAttempts - 1)\<rparr>) 1 =
         status_at srv n s maxAttempts"
proof -
  have "monitor_loop maxAttempts d srv n 1 s =
        monitor_loop maxAttempts d srv n (1 + (maxAttempts - 1))
           (s\<lparr>trace := trace s @ polled (''/status/'' @ n) d (maxAttempts - 1)\<rparr>)"
    using assms by (intro monitor_loop_skip) auto
  then show "monitor_loop maxAttempts d srv n 1 s =
         monitor_loop maxAttempts d srv n maxAttempts
           (s\<lparr>trace := trace s @ polled (''/status/'' @ n) d (maxAttempts - 1)\<rparr>)"
    using assms(1) by simp
  show "status_at srv n (s\<lparr>trace := trace s @ polled (''/status/'' @ n) d (maxAttempts - 1)\<rparr>) 1 =
         status_at srv n s maxAttempts"
    using assms(1) status_at_trace [of 1 srv n s "polled (''/status/'' @ n) d (maxAttempts - 1)"]
    by simp
qed

lemma monitor_loop_exhausted:
  assumes "\<forall>j. 1 \<le> j \<and> j \<le> maxAttempts \<longrightarrow>
             (\<exists>st. status_at srv n s j = Inr (Object st) \<and>
                status st \<noteq> Some ''ready'' \<and> status st \<noteq> Some ''failed'')"
  shows "monitor_loop maxAttempts d srv n 1 s =
         (Inl (Error ''Deployment timeout''),
          s\<lparr>trace := trace s @ polled (''/status/'' @ n) d maxAttempts\<rparr>)"
proof (cases maxAttempts)
  case 0
  then show ?thesis by (subst monitor_loop.simps) (simp add: polled_def)
next
  case (Suc m)
  let ?s1 = "s\<lparr>trace := trace s @ polled (''/status/'' @ n) d (maxAttempts - 1)\<rparr>"
  have one: "1 \<le> maxAttempts" using Suc by simp
  have before: "\<forall>j. 1 \<le> j \<and> j < maxAttempts \<longrightarrow>
           (\<forall>st. status_at srv n s j = Inr (Object st) \<longrightarrow> status st \<noteq> Some ''ready'')"
    using assms by fastforce
  obtain st where st: "status_at srv n s maxAttempts = Inr (Object st)"
    "status st \<noteq> Some ''ready''" "status st \<noteq> Some ''failed''"
    using assms one by blast
  have "monitor_loop maxAttempts d srv n 1 s = monitor_loop maxAttempts d srv n maxAttempts ?s1"
    by (rule monitor_loop_reach_last(1) [OF one before])
  moreover have "status_at srv n ?s1 1 = Inr (Object st)"
    using monitor_loop_reach_last(2) [OF one before, of d] st(1) by simp
  ultimately show ?thesis
    using st(2,3) Suc monitor_loop_last [of srv n ?s1 st maxAttempts d]
    by (simp add: polled_Suc_end)
qed

lemma monitor_loop_frame:
  "deployments (snd (monitor_loop maxAttempts d srv n attempt s)) = deployments s"
proof (induction maxAttempts d srv n attempt s rule: monitor_loop.induct)
  case (1 maxAttempts delay srv modelName attempt s)
  show ?case
    apply (subst monitor_loop.simps)
    using 1
    apply (auto simp add: try_block_def getDeploymentStatus_eq sleep_def
        split: sum.splits json.splits if_splits)
    done
qed


lemma paced_step: "paced d (Request m p # Sleep d # es) = paced d es"
  by (cases es) simp_all

lemma paced_next:
  "paced d es \<Longrightarrow> Suc i < length es \<Longrightarrow> is_request (es ! i) \<Longrightarrow> es ! Suc i = Sleep d"
proof (induction d es arbitrary: i rule: paced.induct)
  case (3 d m p e es)
  then show ?case by (cases i) auto
next
  case (4 d ms e es)
  then show ?case by (cases i) auto
qed simp_all

lemma paced_between:
  assumes "paced d es" and "i < j" and "j < length es" and "is_request (es ! i)" and "is_request (es ! j)"
  shows "\<exists>k. i < k \<and> k < j \<and> es ! k = Sleep d"
proof -
  have nxt: "es ! Suc i = Sleep d" using assms paced_next [of d es i] by simp
  then have "Suc i \<noteq> j" using assms(5) by auto
  with assms(2) nxt show ?thesis by (intro exI [of _ "Suc i"]) auto
qed

text \<open>One iteration either ends the loop after its query, or goes on after query and sleep.\<close>

lemma monitor_loop_step:
  assumes "attempt \<le> maxAttempts"
  shows "(\<exists>r. monitor_loop maxAttempts d srv n attempt s =
               (r, s\<lparr>trace := trace s @ [Request ''GET'' (''/status/'' @ n)]\<rparr>))
       \<or> monitor_loop maxAttempts d srv n attempt s =
           monitor_loop maxAttempts d srv n (Suc attempt)
             (s\<lparr>trace := trace s @ [Request ''GET'' (''/status/'' @ n), Sleep d]\<rparr>)"
  using assms
  by (subst (1 2) monitor_loop.simps)
     (auto simp add: try_block_def getDeploymentStatus_eq sleep_def split: sum.splits json.splits)

lemma monitor_loop_trace:
  "\<exists>es. trace (snd (monitor_loop maxAttempts d srv n attempt s)) = trace s @ es \<and> paced d es
      \<and> n_requests es \<le> Suc maxAttempts - attempt"
proof (induction k \<equiv> "Suc maxAttempts - attempt" arbitrary: attempt s)
  case 0
  then have "maxAttempts < attempt" by simp
  then show ?case by (subst monitor_loop.simps) simp
next
  case (Suc k)
  let ?q = "Request ''GET'' (''/status/'' @ n)"
  let ?s1 = "s\<lparr>trace := trace s @ [?q, Sleep d]\<rparr>"
  from Suc.hyps(2) have le: "attempt \<le> maxAttempts" by simp
  from monitor_loop_step [OF le, of d srv n s] show ?case
  proof
    assume "\<exists>r. monitor_loop maxAttempts d srv n attempt s = (r, s\<lparr>trace := trace s @ [?q]\<rparr>)"
    then have "trace (snd (monitor_loop maxAttempts d srv n attempt s)) = trace s @ [?q]"
      by auto
    then show ?thesis using le by (intro exI [of _ "[?q]"]) simp
  next
    assume eq: "monitor_loop maxAttempts d srv n attempt s =
                monitor_loop maxAttempts d srv n (Suc attempt) ?s1"
    have "k = Suc maxAttempts - Suc attempt" using Suc.hyps(2) by simp
    from Suc.hyps(1) [OF this, of ?s1]
    obtain es where es: "trace (snd (monitor_loop maxAttempts d srv n (Suc attempt) ?s1)) = trace ?s1 @ es"
      "paced d es" "n_requests es \<le> Suc maxAttempts - Suc attempt" by blast
    show ?thesis
      using es eq le by (intro exI [of _ "[?q, Sleep d] @ es"]) (simp add: paced_step del: paced.simps)
  qed
qed



subsection \<open>The poll loop of RHODSIntegration\<close>

lemma rhods_getDeploymentStatus_eq:
  "rhods_getDeploymentStatus srv n s =
     (rhods_status_at srv n s 1,
      s\<lparr>trace := trace s @ [Request ''GET'' (''/api/models/'' @ n @ ''/status'')]\<rparr>)"
  by (simp add: rhods_getDeploymentStatus_def makeRHODSRequest_def rhods_status_at_def
      split: sum.splits)







lemma rhods_monitor_loop_step:
  assumes "attempt \<le> maxAttempts"
  shows "(\<exists>r. rhods_monitor_loop maxAttempts d srv n attempt s =
               (r, s\<lparr>trace := trace s @
                  [Request ''GET'' (''/api/models/'' @ n @ ''/status'')]\<rparr>))
       \<or> rhods_monitor_loop maxAttempts d srv n attempt s =
           rhods_monitor_loop maxAttempts d srv n (Suc attempt)
             (s\<lparr>trace := trace s @
                [Request ''GET'' (''/api/models/'' @ n @ ''/status''), Sleep d]\<rparr>)"
  using assms
  by (subst (1 2) rhods_monitor_loop.simps)
     (auto simp add: rhods_try_block_def rhods_getDeploymentStatus_eq sleep_def
        split: sum.splits json.splits)

lemma rhods_monitor_loop_trace:
  "\<exists>es. trace (snd (rhods_monitor_loop maxAttempts d srv n attempt s)) = trace s @ es
      \<and> paced d es \<and> n_requests es \<le> Suc maxAttempts - attempt"
proof (induction k \<equiv> "Suc maxAttempts - attempt" arbitrary: attempt s)
  case 0
  then have "maxAttempts < attempt" by simp
  then show ?case by (subst rhods_monitor_loop.simps) simp
next
  case (Suc k)
  let ?q = "Request ''GET'' (''/api/models/'' @ n @ ''/status'')"
  let ?s1 = "s\<lparr>trace := trace s @ [?q, Sleep d]\<rparr>"
  from Suc.hyps(2) have le: "attempt \<le> maxAttempts" by simp
  from rhods_monitor_loop_step [OF le, of d srv n s] show ?case
  proof
    assume "\<exists>r. rhods_monitor_loop maxAttempts d srv n attempt s =
                  (r, s\<lparr>trace := trace s @ [?q]\<rparr>)"
    then have "trace (snd (rhods_monitor_loop maxAttempts d srv n attempt s)) = trace s @ [?q]"
      by auto
    then show ?thesis using le by (intro exI [of _ "[?q]"]) simp
  next
    assume eq: "rhods_monitor_loop maxAttempts d srv n attempt s =
                rhods_monitor_loop maxAttempts d srv n (Suc attempt) ?s1"
    have "k = Suc maxAttempts - Suc attempt" using Suc.hyps(2) by simp
    from Suc.hyps(1) [OF this, of ?s1]
    obtain es where es:
      "trace (snd (rhods_monitor_loop maxAttempts d srv n (Suc attempt) ?s1)) = trace ?s1 @ es"
      "paced d es" "n_requests es \<le> Suc maxAttempts - Suc attempt" by blast
    show ?thesis
      using es eq le
      by (intro exI [of _ "[?q, Sleep d] @ es"]) (simp add: paced_step del: paced.simps)
  qed
qed

section \<open>The poll loop\<close>

text \<open>
  C3: when every attempt of a poll session returns a status that is neither ready nor failed
  (such as \<open>deploying\<close>, or the \<open>unknown\<close> that stands for a query that failed), the loop
  issues exactly \<open>maxAttempts\<close> status queries, each followed by a sleep, and then ends with
  the timeout error. The witness is the scenario with two attempts and the replies
  \<open>deploying\<close>, \<open>deploying\<close>; a third query would have been answered \<open>ready\<close>.
\<close>

theorem monitor_loop_exhausts_budget:
  assumes "\<forall>j. 1 \<le> j \<and> j \<le> maxAttempts \<longrightarrow>
             (\<exists>st. status_at srv n s j = Inr (Object st) \<and>
                status st \<noteq> Some ''ready'' \<and> status st \<noteq> Some ''failed'')"
  shows "fst (monitor_loop maxAttempts delay srv n 1 s) = Inl (Error ''Deployment timeout'')
       \<and> trace (snd (monitor_loop maxAttempts delay srv n 1 s)) =
           trace s @ polled (''/status/'' @ n) delay maxAttempts
       \<and> n_requests (trace (snd (monitor_loop maxAttempts delay srv n 1 s))) =
           n_requests (trace s) + maxAttempts"
  using monitor_loop_exhausted [OF assms, of delay] by simp

theorem monitor_loop_exhausts_budget_witness:
  "fst (monitor_loop 2 5000
          (script [reports ''deploying'' None, reports ''deploying'' None]
             (reports ''ready'' (Some ''http://m'')))
          ''m'' 1 new_OpenShiftDeployment) = Inl (Error ''Deployment timeout'')
   \<and> trace (snd (monitor_loop 2 5000
          (script [reports ''deploying'' None, reports ''deploying'' None]
             (reports ''ready'' (Some ''http://m'')))
          ''m'' 1 new_OpenShiftDeployment)) =
       [Request ''GET'' ''/status/m'', Sleep 5000, Request ''GET'' ''/status/m'', Sleep 5000]
   \<and> n_requests (trace (snd (monitor_loop 2 5000
          (script [reports ''deploying'' None, reports ''deploying'' None]
             (reports ''ready'' (Some ''http://m'')))
          ''m'' 1 new_OpenShiftDeployment))) = 2"
proof -
  let ?srv = "script [reports ''deploying'' None, reports ''deploying'' None]
                (reports ''ready'' (Some ''http://m''))"
  have "\<exists>st. status_at ?srv ''m'' new_OpenShiftDeployment j = Inr (Object st) \<and>
                status st \<noteq> Some ''ready'' \<and> status st \<noteq> Some ''failed''"
    if "1 \<le> j \<and> j \<le> 2" for j
  proof -
    from that have "j = 1 \<or> j = 2" by auto
    then show ?thesis
      by (auto simp add: status_at_def getDeploymentStatus_def makeRequest_def script_def
          reports_def new_OpenShiftDeployment_def)
  qed
  then have h: "\<forall>j. 1 \<le> j \<and> j \<le> 2 \<longrightarrow>
             (\<exists>st. status_at ?srv ''m'' new_OpenShiftDeployment j = Inr (Object st) \<and>
                status st \<noteq> Some ''ready'' \<and> status st \<noteq> Some ''failed'')"
    by blast
  have p: "polled ''/status/m'' 5000 2 =
             [Request ''GET'' ''/status/m'', Sleep 5000, Request ''GET'' ''/status/m'', Sleep 5000]"
    by (simp add: polled_def numeral_2_eq_2)
  show ?thesis
    using monitor_loop_exhausts_budget [OF h, of 5000] p
    by (simp add: new_OpenShiftDeployment_def)
qed






text \<open>
  C1, at a failing input: the first status query is answered \<open>failed\<close> with an error message,
  every later one \<open>ready\<close>. The \<open>throw\<close> for the failed status is caught by the loop's own
  \<open>catch\<close> block, which on any attempt but the last sleeps and goes on, so
  \<open>monitorDeployment\<close> queries again and returns the ready response of the second attempt.
\<close>

theorem monitorDeployment_retries_after_failed:
  "monitorDeployment
     (script [HttpResponse 200 (Parsed (Object \<lparr>success = True, status = Some ''failed'',
                endpoint = None, error = Some ''image pull failed''\<rparr>))]
        (reports ''ready'' (Some ''http://m'')))
     ''m'' new_OpenShiftDeployment =
   (Inr \<lparr>success = True, status = Some ''ready'', endpoint = Some ''http://m'', error = None\<rparr>,
    \<lparr>trace = [Request ''GET'' ''/status/m'', Sleep 5000, Request ''GET'' ''/status/m''],
     deployments = Map.empty\<rparr>)"
  by (simp add: monitorDeployment_def monitor_loop.simps try_block_def getDeploymentStatus_def
      makeRequest_def sleep_def new_OpenShiftDeployment_def script_def reports_def)



text \<open>
  C8: in the trace of a poll session, of either class, between any two requests there is a
  sleep of the polling interval. The witness run takes both paths: an in-progress status
  on the first attempt and a failed request on the second.
\<close>

theorem sleep_between_queries:
  "(\<exists>es. trace (snd (monitor_loop maxAttempts delay srv n 1 s)) = trace s @ es
       \<and> (\<forall>i j. i < j \<and> j < length es \<and> is_request (es ! i) \<and> is_request (es ! j)
              \<longrightarrow> (\<exists>k. i < k \<and> k < j \<and> es ! k = Sleep delay)))
   \<and> (\<exists>es. trace (snd (rhods_monitor_loop maxAttempts delay srv n 1 t)) = trace t @ es
       \<and> (\<forall>i j. i < j \<and> j < length es \<and> is_request (es ! i) \<and> is_request (es ! j)
              \<longrightarrow> (\<exists>k. i < k \<and> k < j \<and> es ! k = Sleep delay)))"
proof (rule conjI)
  obtain es where "trace (snd (monitor_loop maxAttempts delay srv n 1 s)) = trace s @ es"
    and "paced delay es"
    using monitor_loop_trace [of maxAttempts delay srv n 1 s] by blast
  then show "\<exists>es. trace (snd (monitor_loop maxAttempts delay srv n 1 s)) = trace s @ es
       \<and> (\<forall>i j. i < j \<and> j < length es \<and> is_request (es ! i) \<and> is_request (es ! j)
              \<longrightarrow> (\<exists>k. i < k \<and> k < j \<and> es ! k = Sleep delay))"
    using paced_between [of delay es] by (intro exI [of _ es]) blast
next
  obtain es where "trace (snd (rhods_monitor_loop maxAttempts delay srv n 1 t)) = trace t @ es"
    and "paced delay es"
    using rhods_monitor_loop_trace [of maxAttempts delay srv n 1 t] by blast
  then show "\<exists>es. trace (snd (rhods_monitor_loop maxAttempts delay srv n 1 t)) = trace t @ es
       \<and> (\<forall>i j. i < j \<and> j < length es \<and> is_request (es ! i) \<and> is_request (es ! j)
              \<longrightarrow> (\<exists>k. i < k \<and> k < j \<and> es ! k = Sleep delay))"
    using paced_between [of delay es] by (intro exI [of _ es]) blast
qed

theorem sleep_between_queries_witness:
  "(\<exists>k. 0 < k \<and> k < 2 \<and>
       trace (snd (monitor_loop 3 5000
         (script [reports ''deploying'' None, TransportError ''socket hang up'']
            (reports ''ready'' (Some ''http://m'')))
         ''m'' 1 new_OpenShiftDeployment)) ! k = Sleep 5000)
   \<and> (\<exists>k. 2 < k \<and> k < 4 \<and>
       trace (snd (rhods_monitor_loop 3 10000
         (script [reports ''deploying'' None, TransportError ''socket hang up'']
            (reports ''ready'' (Some ''http://m'')))
         ''m'' 1 new_RHODSIntegration)) ! k = Sleep 10000)"
proof -
  let ?srv = "script [reports ''deploying'' None, TransportError ''socket hang up'']
            (reports ''ready'' (Some ''http://m''))"
  let ?a = "trace (snd (monitor_loop 3 5000 ?srv ''m'' 1 new_OpenShiftDeployment))"
  let ?b = "trace (snd (rhods_monitor_loop 3 10000 ?srv ''m'' 1 new_RHODSIntegration))"
  have a: "?a = [Request ''GET'' ''/status/m'', Sleep 5000, Request ''GET'' ''/status/m'',
                 Sleep 5000, Request ''GET'' ''/status/m'']"
    by (simp add: monitor_loop.simps try_block_def getDeploymentStatus_def makeRequest_def
        sleep_def new_OpenShiftDeployment_def script_def reports_def)
  have b: "?b = [Request ''GET'' ''/api/models/m/status'', Sleep 10000,
                 Request ''GET'' ''/api/models/m/status'', Sleep 10000,
                 Request ''GET'' ''/api/models/m/status'']"
    by (simp add: rhods_monitor_loop.simps rhods_try_block_def rhods_getDeploymentStatus_def
        makeRHODSRequest_def sleep_def new_RHODSIntegration_def script_def reports_def)
  from sleep_between_queries [where maxAttempts = 3 and delay = 5000 and srv = ?srv and n = "''m''"
      and s = new_OpenShiftDeployment]
  have "\<forall>i j. i < j \<and> j < length ?a \<and> is_request (?a ! i) \<and> is_request (?a ! j)
              \<longrightarrow> (\<exists>k. i < k \<and> k < j \<and> ?a ! k = Sleep 5000)"
    by (simp add: new_OpenShiftDeployment_def)
  then have "0 < (2::nat) \<and> 2 < length ?a \<and> is_request (?a ! 0) \<and> is_request (?a ! 2)
              \<longrightarrow> (\<exists>k. 0 < k \<and> k < 2 \<and> ?a ! k = Sleep 5000)"
    by blast
  moreover have "0 < (2::nat) \<and> 2 < length ?a \<and> is_request (?a ! 0) \<and> is_request (?a ! 2)"
    unfolding a by simp
  ultimately have r1: "\<exists>k. 0 < k \<and> k < 2 \<and> ?a ! k = Sleep 5000" by blast
  from sleep_between_queries [where maxAttempts = 3 and delay = 10000 and srv = ?srv and n = "''m''"
      and t = new_RHODSIntegration]
  have "\<forall>i j. i < j \<and> j < length ?b \<and> is_request (?b ! i) \<and> is_request (?b ! j)
              \<longrightarrow> (\<exists>k. i < k \<and> k < j \<and> ?b ! k = Sleep 10000)"
    by (simp add: new_RHODSIntegration_def)
  then have "2 < (4::nat) \<and> 4 < length ?b \<and> is_request (?b ! 2) \<and> is_request (?b ! 4)
              \<longrightarrow> (\<exists>k. 2 < k \<and> k < 4 \<and> ?b ! k = Sleep 10000)"
    by blast
  moreover have "2 < (4::nat) \<and> 4 < length ?b \<and> is_request (?b ! 2) \<and> is_request (?b ! 4)"
    unfolding b by simp
  ultimately have r2: "\<exists>k. 2 < k \<and> k < 4 \<and> ?b ! k = Sleep 10000" by blast
  from r1 r2 show ?thesis by (rule conjI)
qed

section \<open>The store\<close>

text \<open>
  C7: inference on a name with no record in the store fails with the error
  \<open>Model <name> not deployed\<close> and leaves the state as it was: the trace gains no request, so
  no network call is made.
\<close>

theorem runInference_not_deployed:
  assumes "deployments s modelName = None"
  shows "runInference srv modelName data s =
           (Inl (Error (''Model '' @ modelName @ '' not deployed'')), s)"
  using assms by (simp add: runInference_def)

theorem runInference_not_deployed_witness:
  "runInference (always (TransportError ''unreachable'')) ''ghost-model'' ''{}''
      new_OpenShiftDeployment =
     (Inl (Error ''Model ghost-model not deployed''), new_OpenShiftDeployment)"
proof -
  have h: "deployments new_OpenShiftDeployment ''ghost-model'' = None"
    by (simp add: new_OpenShiftDeployment_def)
  show ?thesis
    using runInference_not_deployed [OF h, of "always (TransportError ''unreachable'')" "''{}''"]
    by simp
qed

text \<open>
  C10: the poll loop leaves the store as it found it, whatever its outcome, so the record of
  the polled name keeps its status, endpoint and timestamp. \<open>deployModel\<close> either leaves the
  store unchanged or, when its request resolved with a truthy \<open>success\<close>, stores one record
  under the submitted name; no other entry changes.
\<close>

theorem store_only_changed_by_submission:
  "deployments (snd (monitor_loop maxAttempts delay srv n 1 s)) = deployments s
   \<and> deployments (snd (monitorDeployment srv n s)) = deployments s
   \<and> (deployments (snd (deployModel srv now cfg s)) = deployments s
      \<or> (\<exists>r. makeRequest_settle (srv (n_requests (trace s))) = Inr (Object r) \<and> success r
            \<and> deployments (snd (deployModel srv now cfg s)) =
                (deployments s)(name cfg \<mapsto> \<lparr>dep_endpoint = endpoint r,
                   dep_status = ''deploying'', deployed_at = now\<rparr>)))"
  by (auto simp add: monitor_loop_frame monitorDeployment_def deployModel_def makeRequest_def
      split: sum.splits json.splits)




section \<open>The status query\<close>




end
